theory Spec2Isabelle
  imports Main "HOL-Library.Word" "HOL-Library.AList"
begin

section \<open>Password hasher (server/auth.ts)\<close>

text \<open>
  A Node \<open>Buffer\<close> is a list of bytes. Strings are \<open>char list\<close>s; the passwords and
  digests that reach the hasher are handed to the key-derivation primitive unchanged.
\<close>

type_synonym byte = "8 word"
type_synonym buffer = "byte list"

text \<open>
  \<open>crypto.scrypt(password, salt, keylen)\<close> is a primitive of the runtime, not of this
  repository. The model takes it as a parameter: a deterministic function of the password,
  the salt and the requested key length.
\<close>

type_synonym kdf = "string \<Rightarrow> string \<Rightarrow> nat \<Rightarrow> buffer"

text \<open>
  \<open>crypto.randomBytes(n)\<close> reads the system's entropy. The entropy one call can draw on is
  an input of the model, a sequence of bytes, and the call returns its first \<open>n\<close>.
\<close>

type_synonym entropy = "nat \<Rightarrow> byte"

definition randomBytes :: "nat \<Rightarrow> entropy \<Rightarrow> buffer" where
  "randomBytes n e = map e [0..<n]"

datatype error = TypeError | RangeError

subsection \<open>Hex encoding: \<open>buf.toString("hex")\<close> and \<open>Buffer.from(s, "hex")\<close>\<close>

definition hex_digit :: "nat \<Rightarrow> char" where
  "hex_digit n = ''0123456789abcdef'' ! n"

definition hex_val :: "char \<Rightarrow> nat option" where
  "hex_val c =
     (let k = (of_char c :: nat) in
      if 48 \<le> k \<and> k \<le> 57 then Some (k - 48)
      else if 97 \<le> k \<and> k \<le> 102 then Some (k - 87)
      else if 65 \<le> k \<and> k \<le> 70 then Some (k - 55)
      else None)"

definition toHex :: "buffer \<Rightarrow> string" where
  "toHex buf = concat (map (\<lambda>b. [hex_digit (unat b div 16), hex_digit (unat b mod 16)]) buf)"

text \<open>
  \<open>Buffer.from(s, "hex")\<close> decodes pairs of hex digits and stops, without an error, at
  the first pair that is not two hex digits; a trailing single character is dropped.
\<close>

fun fromHex :: "string \<Rightarrow> buffer" where
  "fromHex (a # b # rest) =
     (case (hex_val a, hex_val b) of
        (Some h, Some l) \<Rightarrow> word_of_nat (16 * h + l) # fromHex rest
      | _ \<Rightarrow> [])"
| "fromHex _ = []"

subsection \<open>\<open>String.prototype.split\<close> with a one-character separator\<close>

text \<open>
  \<open>s.split(".")\<close> cuts at every separator and always returns at least one piece
  (\<open>"".split(".")\<close> is \<open>[""]\<close>).
\<close>

fun split :: "char \<Rightarrow> string \<Rightarrow> string list" where
  "split d [] = [[]]"
| "split d (c # cs) =
     (if c = d then [] # split d cs
      else (case split d cs of
              [] \<Rightarrow> [[c]]
            | x # xs \<Rightarrow> (c # x) # xs))"

subsection \<open>The two crypto calls that can throw\<close>

text \<open>
  \<open>scryptAsync(password, salt, keylen)\<close>: the salt of \<open>comparePasswords\<close> comes from a
  destructuring and is \<open>undefined\<close> (here \<open>None\<close>) when the digest has no second piece;
  \<open>scrypt\<close> rejects an \<open>undefined\<close> salt with a \<open>TypeError\<close>.
\<close>

definition scryptAsync :: "kdf \<Rightarrow> string \<Rightarrow> string option \<Rightarrow> nat \<Rightarrow> error + buffer" where
  "scryptAsync scrypt password salt keylen =
     (case salt of
        None \<Rightarrow> Inl TypeError
      | Some s \<Rightarrow> Inr (scrypt password s keylen))"

text \<open>
  \<open>timingSafeEqual(a, b)\<close> throws a \<open>RangeError\<close> when the two buffers differ in
  length and compares them otherwise.
\<close>

definition timingSafeEqual :: "buffer \<Rightarrow> buffer \<Rightarrow> error + bool" where
  "timingSafeEqual a b =
     (if length a \<noteq> length b then Inl RangeError else Inr (a = b))"

subsection \<open>\<open>hashPassword\<close> and \<open>comparePasswords\<close>\<close>

text \<open>
  \<open>hashPassword\<close>: the salt is the hex string of \<open>randomBytes(16)\<close>, and the digest is
  \<open>hex(scrypt(password, salt, 64)) + "." + salt\<close>.
\<close>

definition hashPassword :: "kdf \<Rightarrow> entropy \<Rightarrow> string \<Rightarrow> string" where
  "hashPassword scrypt e password =
     (let salt = toHex (randomBytes 16 e);
          buf = scrypt password salt 64
      in toHex buf @ ''.'' @ salt)"

text \<open>
  \<open>comparePasswords\<close>: \<open>const [hashed, salt] = stored.split(".")\<close> takes the first two
  pieces; with one piece only, \<open>salt\<close> is \<open>undefined\<close>.
\<close>

definition comparePasswords :: "kdf \<Rightarrow> string \<Rightarrow> string \<Rightarrow> error + bool" where
  "comparePasswords scrypt supplied stored =
     (case split CHR ''.'' stored of
        [] \<Rightarrow> Inl TypeError
      | hashed # more \<Rightarrow>
          (let salt = (case more of [] \<Rightarrow> None | s # _ \<Rightarrow> Some s);
               hashedBuf = fromHex hashed
           in case scryptAsync scrypt supplied salt 64 of
                Inl e \<Rightarrow> Inl e
              | Inr suppliedBuf \<Rightarrow> timingSafeEqual hashedBuf suppliedBuf))"

text \<open>
  A concrete key-derivation function for evaluating the model at concrete inputs: it
  returns \<open>keylen\<close> bytes that depend on every character of the password and of the salt.
\<close>

definition demo_scrypt :: kdf where
  "demo_scrypt password salt keylen =
     map (\<lambda>i. word_of_nat (i + sum_list (map of_char password) + 3 * sum_list (map of_char salt)))
       [0..<keylen]"

text \<open>Two concrete entropy sequences, for the same purpose.\<close>

definition demo_entropy :: entropy where
  "demo_entropy i = word_of_nat (17 * i + 3)"

definition demo_entropy' :: entropy where
  "demo_entropy' i = word_of_nat (29 * i + 101)"

section \<open>Data model (shared/schema.ts)\<close>

text \<open>
  JavaScript values as far as the handlers build them: activity metadata and the objects
  handed to \<open>res.json\<close>. An object is the list of its own keys, in order. \<open>JUndefined\<close> is
  \<open>undefined\<close>; a key listed with \<open>JUndefined\<close> stands for a key that is absent or
  \<open>undefined\<close>: \<open>res.json\<close> serialises with \<open>JSON.stringify\<close>, which leaves out both.
\<close>

datatype jsval = JUndefined | JNull | JNum nat | JStr string | JObj "(string \<times> jsval) list"

text \<open>
  \<open>InsertUser\<close>: the insert schema of the users table without \<open>id\<close> and \<open>createdAt\<close>. The
  role column has a database default, so the insert type leaves it optional; \<open>MemStorage\<close>
  applies no default, and a missing role (\<open>None\<close>) stays \<open>undefined\<close> on the stored user.
  \<open>avatarUrl\<close> is optional and nullable: \<open>None\<close> is a missing key, \<open>Some None\<close> is \<open>null\<close>.
  \<open>otherKeys\<close> are the own keys of the object besides the seven declared ones: the
  spreads \<open>{...req.body}\<close> and \<open>{...insertUser}\<close> copy them along. Timestamps are
  milliseconds since the epoch.
\<close>

record insert_user =
  username :: string
  password :: string
  firstName :: string
  lastName :: string
  email :: string
  role :: "string option"
  avatarUrl :: "string option option"
  otherKeys :: "(string \<times> jsval) list"

record user = insert_user +
  id_user :: nat
  createdAt :: nat

record insert_student =
  userId :: nat
  studentId :: string
  grade :: string
  dateEnrolled :: nat
  status :: string
  parentName :: "string option"
  parentEmail :: "string option"
  parentPhone :: "string option"
  address :: "string option"

record student = insert_student +
  id_student :: nat

record insert_activity =
  userId_activity :: nat
  activityType :: string
  description :: string
  metadata :: jsval

record activity = insert_activity +
  id_activity :: nat
  timestamp :: nat

text \<open>
  \<open>Express.User\<close>: the user record with the optional \<open>studentInfo\<close>, the value passport
  keeps in \<open>req.user\<close>.
\<close>

record express_user = user +
  studentInfo :: "student option"

text \<open>
  \<open>Partial<InsertUser>\<close>: a field that is \<open>None\<close> is a key the patch does not have. A
  student's optional fields are \<open>None\<close> when \<open>undefined\<close>.
\<close>

record user_patch =
  username_patch :: "string option"
  password_patch :: "string option"
  firstName_patch :: "string option"
  lastName_patch :: "string option"
  email_patch :: "string option"
  role_patch :: "string option"
  avatarUrl_patch :: "string option option"

section \<open>In-memory storage (server/storage.ts, class \<open>MemStorage\<close>)\<close>

text \<open>
  The tables the authentication code touches. A JavaScript \<open>Map\<close> keeps its keys in
  insertion order, and \<open>set\<close> on an existing key replaces the value in place: an
  association list with \<open>AList.update\<close>. \<open>Array.from(m.values()).find(f)\<close> is the first
  value, in that order, that satisfies \<open>f\<close>.
\<close>

record storage =
  users :: "(nat \<times> user) list"
  students :: "(nat \<times> student) list"
  activities :: "(nat \<times> activity) list"
  currentUserId :: nat
  currentStudentId :: nat
  currentActivityId :: nat

definition getUser :: "storage \<Rightarrow> nat \<Rightarrow> user option" where
  "getUser st i = map_of (users st) i"

definition getUserByUsername :: "storage \<Rightarrow> string \<Rightarrow> user option" where
  "getUserByUsername st name = find (\<lambda>u. username u = name) (map snd (users st))"

text \<open>
  \<open>createUser\<close> and \<open>createActivity\<close> read the clock (\<open>new Date()\<close>): the parameter \<open>now\<close>.
  Each takes the next id from its counter and stores \<open>{...insert, id, ...}\<close> under it.
\<close>

definition createUser :: "nat \<Rightarrow> storage \<Rightarrow> insert_user \<Rightarrow> storage \<times> user" where
  "createUser now st insertUser =
     (let i = currentUserId st;
          u = \<lparr>username = username insertUser, password = password insertUser,
               firstName = firstName insertUser, lastName = lastName insertUser,
               email = email insertUser, role = role insertUser,
               avatarUrl = avatarUrl insertUser, otherKeys = otherKeys insertUser,
               id_user = i, createdAt = now\<rparr>
      in (st\<lparr>currentUserId := i + 1, users := AList.update i u (users st)\<rparr>, u))"

text \<open>\<open>updateUser\<close>: \<open>{...user, ...userData}\<close>, the keys of the patch override the user's.\<close>

definition updateUser :: "storage \<Rightarrow> nat \<Rightarrow> user_patch \<Rightarrow> storage \<times> user option" where
  "updateUser st i userData =
     (case map_of (users st) i of
        None \<Rightarrow> (st, None)
      | Some u \<Rightarrow>
          (let updatedUser = u\<lparr>
                 username := (case username_patch userData of None \<Rightarrow> username u | Some v \<Rightarrow> v),
                 password := (case password_patch userData of None \<Rightarrow> password u | Some v \<Rightarrow> v),
                 firstName := (case firstName_patch userData of None \<Rightarrow> firstName u | Some v \<Rightarrow> v),
                 lastName := (case lastName_patch userData of None \<Rightarrow> lastName u | Some v \<Rightarrow> v),
                 email := (case email_patch userData of None \<Rightarrow> email u | Some v \<Rightarrow> v),
                 role := (case role_patch userData of None \<Rightarrow> role u | Some v \<Rightarrow> Some v),
                 avatarUrl := (case avatarUrl_patch userData of None \<Rightarrow> avatarUrl u | Some v \<Rightarrow> Some v)\<rparr>
           in (st\<lparr>users := AList.update i updatedUser (users st)\<rparr>, Some updatedUser)))"

definition getStudentByUserId :: "storage \<Rightarrow> nat \<Rightarrow> student option" where
  "getStudentByUserId st uid = find (\<lambda>s. userId s = uid) (map snd (students st))"

definition createStudent :: "storage \<Rightarrow> insert_student \<Rightarrow> storage \<times> student" where
  "createStudent st insertStudent =
     (let i = currentStudentId st;
          s = \<lparr>userId = userId insertStudent, studentId = studentId insertStudent,
               grade = grade insertStudent, dateEnrolled = dateEnrolled insertStudent,
               status = status insertStudent, parentName = parentName insertStudent,
               parentEmail = parentEmail insertStudent, parentPhone = parentPhone insertStudent,
               address = address insertStudent, id_student = i\<rparr>
      in (st\<lparr>currentStudentId := i + 1, students := AList.update i s (students st)\<rparr>, s))"

definition createActivity :: "nat \<Rightarrow> storage \<Rightarrow> insert_activity \<Rightarrow> storage \<times> activity" where
  "createActivity now st insertActivity =
     (let i = currentActivityId st;
          a = \<lparr>userId_activity = userId_activity insertActivity,
               activityType = activityType insertActivity,
               description = description insertActivity,
               metadata = metadata insertActivity, id_activity = i, timestamp = now\<rparr>
      in (st\<lparr>currentActivityId := i + 1, activities := AList.update i a (activities st)\<rparr>, a))"

section \<open>Session layer\<close>

text \<open>
  Modelled from the spec: the session layer. The repository configures \<open>express-session\<close>
  and passport (\<open>app.use(session(...))\<close>, \<open>passport.session()\<close>, \<open>req.login\<close>,
  \<open>req.logout\<close>) and supplies the two callbacks \<open>serializeUser\<close> and \<open>deserializeUser\<close>;
  the code that stores, looks up and removes session records is not in the repository.
  The specification (sections 3 and 4.3) gives its contract: a session is
  \<open>{sessionId, principalUserId, expiry}\<close>; \<open>createSession\<close> stores a record mapping the
  session id to the principal's user id with \<open>expiry = now + TTL\<close>; \<open>resolveSession\<close> returns
  none when the record is missing or expired and otherwise rebuilds the principal from
  the user store; \<open>destroySession\<close> removes the record. The TTL is the cookie's \<open>maxAge\<close>
  of the source, one day in milliseconds. The session id is allocated by the session
  middleware and is an input here.
\<close>

record session =
  principalUserId :: nat
  expiry :: nat

record state =
  store :: storage
  sessions :: "string \<rightharpoonup> session"

definition maxAge :: nat where
  "maxAge = 1000 * 60 * 60 * 24"

text \<open>\<open>passport.serializeUser\<close>: the session keeps the user's id only.\<close>

definition serializeUser :: "express_user \<Rightarrow> nat" where
  "serializeUser u = id_user u"

text \<open>
  \<open>passport.deserializeUser\<close>: re-reads the user by id; \<open>done(null, false)\<close> (here \<open>None\<close>)
  when there is none; for a student, re-reads the student record. \<open>MemStorage\<close> never
  rejects, so the \<open>catch\<close> branch has no counterpart.
\<close>

definition deserializeUser :: "storage \<Rightarrow> nat \<Rightarrow> express_user option" where
  "deserializeUser st i =
     (case getUser st i of
        None \<Rightarrow> None
      | Some u \<Rightarrow>
          (let studentInfo = (if role u = Some ''student'' then getStudentByUserId st (id_user u)
                              else None)
           in Some (user.extend u (express_user.fields studentInfo))))"

text \<open>Modelled from the spec: \<open>createSession\<close>, called by \<open>req.login\<close>.\<close>

definition createSession :: "state \<Rightarrow> string \<Rightarrow> express_user \<Rightarrow> nat \<Rightarrow> state" where
  "createSession s sid u now =
     s\<lparr>sessions := (sessions s)(sid \<mapsto>
          \<lparr>principalUserId = serializeUser u, expiry = now + maxAge\<rparr>)\<rparr>"

text \<open>
  Modelled from the spec: \<open>resolveSession\<close>, what \<open>passport.session()\<close> does on each
  request to fill \<open>req.user\<close>.
\<close>

definition resolveSession :: "state \<Rightarrow> string \<Rightarrow> nat \<Rightarrow> express_user option" where
  "resolveSession s sid now =
     (case sessions s sid of
        None \<Rightarrow> None
      | Some se \<Rightarrow>
          if expiry se \<le> now then None
          else deserializeUser (store s) (principalUserId se))"

text \<open>Modelled from the spec: \<open>destroySession\<close>, called by \<open>req.logout\<close>.\<close>

definition destroySession :: "state \<Rightarrow> string \<Rightarrow> state" where
  "destroySession s sid = s\<lparr>sessions := (sessions s)(sid := None)\<rparr>"

section \<open>Route guards (server/routes.ts)\<close>

text \<open>
  What a handler answers: \<open>res.status(n).json(v)\<close>, \<open>res.sendStatus(n)\<close>, or \<open>next(err)\<close>,
  which hands the error to the framework. A middleware returns \<open>None\<close> when it calls
  \<open>next()\<close> and the response it sends otherwise. \<open>req.isAuthenticated()\<close> is true exactly
  when \<open>req.user\<close> is set.
\<close>

datatype response = Json nat jsval | SendStatus nat | Next error

definition message :: "string \<Rightarrow> jsval" where
  "message m = JObj [(''message'', JStr m)]"

definition isAuthenticated :: "express_user option \<Rightarrow> response option" where
  "isAuthenticated req_user =
     (case req_user of
        Some _ \<Rightarrow> None
      | None \<Rightarrow> Some (Json 401 (message ''Not authenticated'')))"

definition hasRole :: "string list \<Rightarrow> express_user option \<Rightarrow> response option" where
  "hasRole roles req_user =
     (case req_user of
        None \<Rightarrow> Some (Json 401 (message ''Not authenticated''))
      | Some u \<Rightarrow>
          (if \<not> (case role u of None \<Rightarrow> False | Some r \<Rightarrow> r \<in> set roles)
           then Some (Json 403 (message ''Forbidden: insufficient permissions''))
           else None))"

section \<open>Objects sent to the client\<close>

definition role_js :: "string option \<Rightarrow> jsval" where
  "role_js r = (case r of None \<Rightarrow> JUndefined | Some v \<Rightarrow> JStr v)"

definition optional_js :: "string option \<Rightarrow> jsval" where
  "optional_js r = (case r of None \<Rightarrow> JUndefined | Some v \<Rightarrow> JStr v)"

definition avatarUrl_js :: "string option option \<Rightarrow> jsval" where
  "avatarUrl_js r =
     (case r of None \<Rightarrow> JUndefined | Some None \<Rightarrow> JNull | Some (Some v) \<Rightarrow> JStr v)"

text \<open>The text a template literal gives for \<open>user.role\<close>.\<close>

definition role_str :: "string option \<Rightarrow> string" where
  "role_str r = (case r of None \<Rightarrow> ''undefined'' | Some v \<Rightarrow> v)"

definition student_js :: "student option \<Rightarrow> jsval" where
  "student_js so =
     (case so of
        None \<Rightarrow> JUndefined
      | Some s \<Rightarrow>
          JObj [(''userId'', JNum (userId s)), (''studentId'', JStr (studentId s)),
                (''grade'', JStr (grade s)), (''dateEnrolled'', JNum (dateEnrolled s)),
                (''status'', JStr (status s)), (''parentName'', optional_js (parentName s)),
                (''parentEmail'', optional_js (parentEmail s)),
                (''parentPhone'', optional_js (parentPhone s)),
                (''address'', optional_js (address s)), (''id'', JNum (id_student s))])"

text \<open>
  The own keys of a stored user, the part \<open>{...user}\<close> copies. \<open>createUser\<close> built the
  object as \<open>{...insertUser, id, createdAt: now}\<close>: the keys of the insert, then \<open>id\<close> and
  \<open>createdAt\<close>, each replacing a key of that name in place (\<open>AList.update\<close>). The declared
  keys are listed first, in the schema's order; a body may order its keys otherwise,
  which a reader of the JSON does not observe.
\<close>

definition spread_user :: "'a user_scheme \<Rightarrow> (string \<times> jsval) list" where
  "spread_user u =
     AList.update ''createdAt'' (JNum (createdAt u))
       (AList.update ''id'' (JNum (id_user u))
          ([(''username'', JStr (username u)), (''password'', JStr (password u)),
            (''firstName'', JStr (firstName u)), (''lastName'', JStr (lastName u)),
            (''email'', JStr (email u)), (''role'', role_js (role u)),
            (''avatarUrl'', avatarUrl_js (avatarUrl u))] @ otherKeys u))"

text \<open>The own keys of \<open>req.user\<close>, which was built as \<open>{...user, studentInfo}\<close>.\<close>

definition spread_express_user :: "express_user \<Rightarrow> (string \<times> jsval) list" where
  "spread_express_user u =
     AList.update ''studentInfo'' (student_js (studentInfo u)) (spread_user u)"

text \<open>Decimal digits of a number, as a template literal prints it.\<close>

function show_nat :: "nat \<Rightarrow> string" where
  "show_nat n = (if n < 10 then [hex_digit n] else show_nat (n div 10) @ [hex_digit (n mod 10)])"
  by pat_completeness auto
termination
  by (relation "measure (\<lambda>n. n)") auto

declare show_nat.simps [simp del]

section \<open>Authentication routes (server/auth.ts, \<open>setupAuth\<close>)\<close>

text \<open>
  What one request reads from its environment: the clock (\<open>new Date()\<close>), the entropy
  behind \<open>randomBytes\<close>, and the value of
  \<open>Math.floor(10000 + Math.random() * 90000)\<close>.
\<close>

record env =
  now :: nat
  entropy_src :: entropy
  studentNo :: nat

text \<open>
  The body of \<open>POST /api/register\<close>: the fields of \<open>InsertUser\<close> and the optional student
  fields the handler reads from \<open>req.body\<close>, each a string when present; \<open>otherKeys\<close> are
  the keys of the body besides these twelve. The handler passes \<open>{...req.body, password}\<close>
  to \<open>createUser\<close>: every key of the body goes along, so the student fields the body has
  and its other keys stay on the stored user.
\<close>

record register_body = insert_user +
  grade_body :: "string option"
  parentName_body :: "string option"
  parentEmail_body :: "string option"
  parentPhone_body :: "string option"
  address_body :: "string option"

definition present_key :: "string \<Rightarrow> string option \<Rightarrow> (string \<times> jsval) list" where
  "present_key k v = (case v of None \<Rightarrow> [] | Some x \<Rightarrow> [(k, JStr x)])"

text \<open>The keys of a registration body that \<open>InsertUser\<close> does not declare.\<close>

definition body_keys :: "register_body \<Rightarrow> (string \<times> jsval) list" where
  "body_keys body =
     present_key ''grade'' (grade_body body) @
     present_key ''parentName'' (parentName_body body) @
     present_key ''parentEmail'' (parentEmail_body body) @
     present_key ''parentPhone'' (parentPhone_body body) @
     present_key ''address'' (address_body body) @
     otherKeys body"

text \<open>
  The verify callback of the \<open>LocalStrategy\<close>: \<open>done(null, false)\<close> is \<open>Inr None\<close>,
  \<open>done(null, user)\<close> is \<open>Inr (Some user)\<close> and \<open>done(error)\<close>, from the \<open>catch\<close>, is
  \<open>Inl error\<close>. \<open>comparePasswords\<close> runs only when the user exists.
\<close>

definition localStrategy :: "kdf \<Rightarrow> storage \<Rightarrow> string \<Rightarrow> string \<Rightarrow> error + express_user option" where
  "localStrategy scrypt st name pw =
     (case getUserByUsername st name of
        None \<Rightarrow> Inr None
      | Some u \<Rightarrow>
          (case comparePasswords scrypt pw (password u) of
             Inl e \<Rightarrow> Inl e
           | Inr ok \<Rightarrow>
               if \<not> ok then Inr None
               else
                 (let studentInfo = (if role u = Some ''student''
                                     then getStudentByUserId st (id_user u) else None)
                  in Inr (Some (user.extend u (express_user.fields studentInfo))))))"

text \<open>\<open>POST /api/register\<close>.\<close>

definition register :: "kdf \<Rightarrow> env \<Rightarrow> state \<Rightarrow> string \<Rightarrow> register_body \<Rightarrow> state \<times> response" where
  "register scrypt ev s sid body =
     (case getUserByUsername (store s) (username body) of
        Some existingUser \<Rightarrow> (s, Json 400 (message ''Username already exists''))
      | None \<Rightarrow>
          (let userData = (insert_user.truncate body)
                 \<lparr>password := hashPassword scrypt (entropy_src ev) (password body),
                  otherKeys := body_keys body\<rparr>;
               (st1, u) = createUser (now ev) (store s) userData;
               (st2, studentInfo) =
                 (if role u = Some ''student'' then
                    (let (st', stu) = createStudent st1
                           \<lparr>userId = id_user u,
                            studentId = ''ST'' @ show_nat (studentNo ev),
                            grade = (case grade_body body of
                                       None \<Rightarrow> ''Not assigned''
                                     | Some g \<Rightarrow> if g = [] then ''Not assigned'' else g),
                            dateEnrolled = now ev,
                            status = ''active'',
                            parentName = parentName_body body,
                            parentEmail = parentEmail_body body,
                            parentPhone = parentPhone_body body,
                            address = address_body body\<rparr>
                     in (st', Some stu))
                  else (st1, None));
               (st3, a) = createActivity (now ev) st2
                 \<lparr>userId_activity = id_user u,
                  activityType = ''USER_REGISTERED'',
                  description = ''User '' @ username u @ '' registered with role '' @ role_str (role u),
                  metadata = JObj [(''id'', JNum (id_user u)), (''role'', role_js (role u))]\<rparr>;
               s' = createSession (s\<lparr>store := st3\<rparr>) sid
                      (user.extend u (express_user.fields studentInfo)) (now ev)
           in (s', Json 201 (JObj (AList.update ''studentInfo'' (student_js studentInfo)
                                     (AList.update ''password'' JUndefined (spread_user u)))))))"

text \<open>
  \<open>passport.authenticate("local", callback)\<close>: before it calls the verify callback, the
  local strategy fails a request whose username or password is missing or empty; the
  route's callback then sees \<open>user = false\<close>, as after \<open>done(null, false)\<close>.
\<close>

definition authenticate :: "kdf \<Rightarrow> storage \<Rightarrow> string \<Rightarrow> string \<Rightarrow> error + express_user option" where
  "authenticate scrypt st name pw =
     (if name = [] \<or> pw = [] then Inr None else localStrategy scrypt st name pw)"

text \<open>\<open>POST /api/login\<close>.\<close>

definition login :: "kdf \<Rightarrow> env \<Rightarrow> state \<Rightarrow> string \<Rightarrow> string \<Rightarrow> string \<Rightarrow> state \<times> response" where
  "login scrypt ev s sid name pw =
     (case authenticate scrypt (store s) name pw of
        Inl err \<Rightarrow> (s, Next err)
      | Inr None \<Rightarrow> (s, Json 401 (message ''Invalid username or password''))
      | Inr (Some u) \<Rightarrow>
          (let s1 = createSession s sid u (now ev);
               (st2, a) = createActivity (now ev) (store s1)
                 \<lparr>userId_activity = id_user u,
                  activityType = ''USER_LOGIN'',
                  description = ''User '' @ username u @ '' logged in'',
                  metadata = JObj [(''id'', JNum (id_user u)), (''role'', role_js (role u))]\<rparr>
           in (s1\<lparr>store := st2\<rparr>,
               Json 200 (JObj (AList.update ''password'' JUndefined (spread_express_user u))))))"

text \<open>\<open>POST /api/logout\<close>: logs the activity when a user is signed in, then \<open>req.logout\<close>.\<close>

definition logout :: "env \<Rightarrow> state \<Rightarrow> string \<Rightarrow> state \<times> response" where
  "logout ev s sid =
     (let s1 = (case resolveSession s sid (now ev) of
                  None \<Rightarrow> s
                | Some u \<Rightarrow>
                    s\<lparr>store := fst (createActivity (now ev) (store s)
                      \<lparr>userId_activity = id_user u,
                       activityType = ''USER_LOGOUT'',
                       description = ''User '' @ username u @ '' logged out'',
                       metadata = JObj [(''id'', JNum (id_user u)), (''role'', role_js (role u))]\<rparr>)\<rparr>)
      in (destroySession s1 sid, SendStatus 200))"

text \<open>\<open>GET /api/user\<close>.\<close>

definition currentUser :: "env \<Rightarrow> state \<Rightarrow> string \<Rightarrow> response" where
  "currentUser ev s sid =
     (case resolveSession s sid (now ev) of
        None \<Rightarrow> SendStatus 401
      | Some u \<Rightarrow>
          Json 200 (JObj (AList.update ''password'' JUndefined (spread_express_user u))))"

section \<open>User administration (server/routes.ts)\<close>

text \<open>
  \<open>validateBody(insertUserSchema)\<close> replaces \<open>req.body\<close> by \<open>schema.parse(req.body)\<close>, which
  keeps the keys the schema declares and drops the others. The bodies considered are
  those that pass the schema (the declared fields well-typed, the role one of the enum
  when present); the others are answered 400.
\<close>

definition validateBody :: "insert_user \<Rightarrow> insert_user" where
  "validateBody body = body\<lparr>otherKeys := []\<rparr>"

text \<open>
  \<open>POST /api/users\<close>, behind \<open>isAuthenticated\<close>, \<open>hasRole(["admin"])\<close> and
  \<open>validateBody(insertUserSchema)\<close>. The handler binds \<open>hashedPassword\<close> to the body's
  password, never uses it, and stores the body as it came. Reading \<open>req.user.id\<close> without a
  user would throw after the user was created and end in the handler's \<open>catch\<close>.
\<close>

definition postUsers :: "env \<Rightarrow> state \<Rightarrow> string \<Rightarrow> insert_user \<Rightarrow> state \<times> response" where
  "postUsers ev s sid body =
     (let req_user = resolveSession s sid (now ev) in
      case isAuthenticated req_user of
        Some res \<Rightarrow> (s, res)
      | None \<Rightarrow>
          (case hasRole [''admin''] req_user of
             Some res \<Rightarrow> (s, res)
           | None \<Rightarrow>
               (let body = validateBody body;
                    hashedPassword = password body;
                    (st1, u) = createUser (now ev) (store s) body
                in case req_user of
                     None \<Rightarrow> (s\<lparr>store := st1\<rparr>, Json 500 (message ''Server error''))
                   | Some admin \<Rightarrow>
                       (let (st2, a) = createActivity (now ev) st1
                              \<lparr>userId_activity = id_user admin,
                               activityType = ''USER_CREATED'',
                               description = ''Admin created user '' @ username u @
                                             '' with role '' @ role_str (role u),
                               metadata = JObj [(''userId'', JNum (id_user u)),
                                                (''role'', role_js (role u))]\<rparr>
                        in (s\<lparr>store := st2\<rparr>,
                            Json 201 (JObj (AList.update ''password'' JUndefined (spread_user u))))))))"

section \<open>Concrete inputs\<close>

text \<open>
  A store with an administrator and a teacher, whose passwords are stored as digests,
  and three sessions: the administrator's, the teacher's, and one whose user id has no
  user; request bodies, a patch that makes the teacher a student, and a student record
  for her. They instantiate the theorems below at concrete inputs.
\<close>

definition demo_admin :: user where
  "demo_admin =
     \<lparr>username = ''root'', password = hashPassword demo_scrypt demo_entropy ''admin-pw'',
      firstName = ''Ada'', lastName = ''Min'', email = ''root@example.org'',
      role = Some ''admin'', avatarUrl = None, otherKeys = [], id_user = 1, createdAt = 10\<rparr>"

definition demo_alice :: user where
  "demo_alice =
     \<lparr>username = ''alice'', password = hashPassword demo_scrypt demo_entropy ''correct-pw'',
      firstName = ''Alice'', lastName = ''Liddell'', email = ''alice@example.org'',
      role = Some ''teacher'', avatarUrl = None, otherKeys = [], id_user = 7, createdAt = 20\<rparr>"

definition demo_storage :: storage where
  "demo_storage =
     \<lparr>users = [(1, demo_admin), (7, demo_alice)], students = [], activities = [],
      currentUserId = 8, currentStudentId = 1, currentActivityId = 1\<rparr>"

definition demo_state :: state where
  "demo_state =
     \<lparr>store = demo_storage,
      sessions = [''sid-admin'' \<mapsto> \<lparr>principalUserId = 1, expiry = 90000000\<rparr>,
                  ''sid-alice'' \<mapsto> \<lparr>principalUserId = 7, expiry = 90000000\<rparr>,
                  ''sid-ghost'' \<mapsto> \<lparr>principalUserId = 99, expiry = 90000000\<rparr>]\<rparr>"

definition demo_env :: env where
  "demo_env = \<lparr>now = 5000, entropy_src = demo_entropy', studentNo = 12345\<rparr>"

definition demo_body :: insert_user where
  "demo_body =
     \<lparr>username = ''bob'', password = ''secret'', firstName = ''Bob'', lastName = ''Builder'',
      email = ''bob@example.org'', role = Some ''teacher'', avatarUrl = None,
      otherKeys = []\<rparr>"

definition demo_register_body :: register_body where
  "demo_register_body =
     \<lparr>username = ''bob'', password = ''secret'', firstName = ''Bob'', lastName = ''Builder'',
      email = ''bob@example.org'', role = Some ''student'', avatarUrl = None,
      otherKeys = [], grade_body = None, parentName_body = Some ''Wendy'', parentEmail_body = None,
      parentPhone_body = None, address_body = None\<rparr>"

definition demo_admin_user :: express_user where
  "demo_admin_user = user.extend demo_admin (express_user.fields None)"

definition demo_alice_user :: express_user where
  "demo_alice_user = user.extend demo_alice (express_user.fields None)"

definition demo_patch :: user_patch where
  "demo_patch =
     \<lparr>username_patch = None, password_patch = None, firstName_patch = None,
      lastName_patch = None, email_patch = None, role_patch = Some ''student'',
      avatarUrl_patch = None\<rparr>"

definition demo_insert_student :: insert_student where
  "demo_insert_student =
     \<lparr>userId = 7, studentId = ''ST54321'', grade = ''Grade 9'', dateEnrolled = 5500,
      status = ''active'', parentName = Some ''Lorina'', parentEmail = None,
      parentPhone = None, address = None\<rparr>"

section \<open>Properties of the hex codec and of \<open>split\<close>\<close>

lemma hex_val_digit: "n < 16 \<Longrightarrow> hex_val (hex_digit n) = Some n"
proof -
  assume "n < 16"
  then have "n \<in> {0, 1, 2, 3, 4, 5, 6, 7, 8, 9, 10, 11, 12, 13, 14, 15}"
    by (simp, arith)
  then show ?thesis
    by (auto simp: hex_digit_def hex_val_def)
qed

lemma hex_digit_not_dot: "n < 16 \<Longrightarrow> hex_digit n \<noteq> CHR ''.''"
proof -
  assume "n < 16"
  then have "n \<in> {0, 1, 2, 3, 4, 5, 6, 7, 8, 9, 10, 11, 12, 13, 14, 15}"
    by (simp, arith)
  then show ?thesis
    by (auto simp: hex_digit_def)
qed

lemma nibbles_of_byte: "unat (b :: byte) div 16 < 16" "unat b mod 16 < 16"
proof -
  have "unat b < 256" using unsigned_less [of b] by simp
  then show "unat b div 16 < 16" by simp
  show "unat b mod 16 < 16" by simp
qed

lemma fromHex_toHex: "fromHex (toHex buf) = buf"
  by (induction buf) (simp_all add: toHex_def hex_val_digit nibbles_of_byte)

lemma byte_digits_not_dot:
  "CHR ''.'' \<noteq> hex_digit (unat (b :: byte) div 16)" "CHR ''.'' \<noteq> hex_digit (unat b mod 16)"
  using hex_digit_not_dot [OF nibbles_of_byte(1) [of b]] hex_digit_not_dot [OF nibbles_of_byte(2) [of b]]
  by auto

lemma toHex_no_dot: "CHR ''.'' \<notin> set (toHex buf)"
  by (induction buf) (simp_all add: toHex_def byte_digits_not_dot)

lemma toHex_inj: "toHex a = toHex b \<Longrightarrow> a = b"
  by (metis fromHex_toHex)

lemma split_no_sep: "d \<notin> set s \<Longrightarrow> split d s = [s]"
  by (induction s) auto

lemma split_first: "d \<notin> set a \<Longrightarrow> split d (a @ d # r) = a # split d r"
  by (induction a) auto

lemma split_digest:
  "CHR ''.'' \<notin> set a \<Longrightarrow> CHR ''.'' \<notin> set b \<Longrightarrow> split CHR ''.'' (a @ CHR ''.'' # b) = [a, b]"
  by (simp add: split_first split_no_sep)

lemma split_hashPassword:
  "split CHR ''.'' (hashPassword scrypt e p) =
     [toHex (scrypt p (toHex (randomBytes 16 e)) 64), toHex (randomBytes 16 e)]"
  by (simp add: hashPassword_def Let_def split_digest toHex_no_dot)

lemma compare_own_digest:
  "comparePasswords scrypt p (hashPassword scrypt e p) = Inr True"
  by (simp add: comparePasswords_def split_hashPassword Let_def
      scryptAsync_def timingSafeEqual_def fromHex_toHex)

lemma digest_salt_differs:
  assumes "randomBytes 16 e1 \<noteq> randomBytes 16 e2"
  shows "hashPassword scrypt e1 p \<noteq> hashPassword scrypt e2 p"
proof
  assume "hashPassword scrypt e1 p = hashPassword scrypt e2 p"
  then have "split CHR ''.'' (hashPassword scrypt e1 p) = split CHR ''.'' (hashPassword scrypt e2 p)"
    by simp
  then have "toHex (randomBytes 16 e1) = toHex (randomBytes 16 e2)"
    by (simp add: split_hashPassword)
  with assms show False by (auto dest: toHex_inj)
qed

lemma compare_no_delimiter:
  "CHR ''.'' \<notin> set d \<Longrightarrow> comparePasswords scrypt p d = Inl TypeError"
  by (simp add: comparePasswords_def split_no_sep scryptAsync_def)

lemma compare_two_pieces:
  "split CHR ''.'' d = h # s # rest \<Longrightarrow>
   comparePasswords scrypt p d =
     (if length (fromHex h) \<noteq> length (scrypt p s 64) then Inl RangeError
      else Inr (fromHex h = scrypt p s 64))"
  by (simp add: comparePasswords_def scryptAsync_def timingSafeEqual_def)

section \<open>Properties of the storage and of the strategy\<close>

lemmas record_defs = insert_user.defs user.defs express_user.defs

lemma getUser_updateUser:
  "updateUser st i patch = (st2, Some u2) \<Longrightarrow> getUser st2 i = Some u2"
  by (auto simp: updateUser_def getUser_def Let_def update_conv' split: option.splits)

lemma role_updateUser:
  "updateUser st i patch = (st2, Some u2) \<Longrightarrow> role_patch patch = Some r \<Longrightarrow> role u2 = Some r"
  by (auto simp: updateUser_def Let_def split: option.splits)

lemma find_update_new:
  "find P (map snd al) = None \<Longrightarrow> P v \<Longrightarrow> find P (map snd (AList.update k v al)) = Some v"
  by (induction al) (auto split: if_splits)

lemma getStudentByUserId_createStudent:
  assumes "getStudentByUserId st uid = None"
    and "createStudent st ins = (st2, stu)"
    and "userId ins = uid"
  shows "getStudentByUserId st2 uid = Some stu"
proof -
  from assms(2) have st2: "students st2 = AList.update (currentStudentId st) stu (students st)"
    and stu: "userId stu = userId ins"
    by (auto simp: createStudent_def Let_def)
  from assms(1) have "find (\<lambda>x. userId x = uid) (map snd (students st)) = None"
    by (simp add: getStudentByUserId_def)
  then have "find (\<lambda>x. userId x = uid)
      (map snd (AList.update (currentStudentId st) stu (students st))) = Some stu"
    using stu assms(3) by (intro find_update_new) simp_all
  then show ?thesis
    by (simp add: getStudentByUserId_def st2)
qed

lemma getUser_createStudent:
  "createStudent st ins = (st2, stu) \<Longrightarrow> getUser st2 i = getUser st i"
  by (auto simp: createStudent_def getUser_def Let_def)







section \<open>The model at the concrete inputs\<close>

lemma demo_scrypt_length: "length (demo_scrypt p s n) = n"
  by (simp add: demo_scrypt_def)


lemma demo_lookup_alice: "getUserByUsername (store demo_state) ''alice'' = Some demo_alice"
  by (simp add: getUserByUsername_def demo_state_def demo_storage_def demo_admin_def demo_alice_def)


lemma demo_lookup_bob: "getUserByUsername (store demo_state) ''bob'' = None"
  by (simp add: getUserByUsername_def demo_state_def demo_storage_def demo_admin_def demo_alice_def)

lemma demo_roles:
  "role demo_alice_user = Some ''teacher''" "role demo_admin_user = Some ''admin''"
  by (simp_all add: demo_alice_user_def demo_admin_user_def demo_alice_def demo_admin_def record_defs)

lemma demo_update_alice:
  "updateUser (store (createSession demo_state ''sid-new'' demo_alice_user 5000))
     (id_user demo_alice_user) demo_patch =
   (demo_storage\<lparr>users := [(1, demo_admin), (7, demo_alice\<lparr>role := Some ''student''\<rparr>)]\<rparr>,
    Some (demo_alice\<lparr>role := Some ''student''\<rparr>))"
  by (simp add: updateUser_def createSession_def demo_state_def demo_storage_def
      demo_alice_user_def demo_alice_def demo_patch_def record_defs Let_def)

lemma demo_no_student:
  "getStudentByUserId
     (demo_storage\<lparr>users := [(1, demo_admin), (7, demo_alice\<lparr>role := Some ''student''\<rparr>)]\<rparr>)
     (id_user (demo_alice\<lparr>role := Some ''student''\<rparr>)) = None"
  by (simp add: getStudentByUserId_def demo_storage_def)

lemma demo_create_student:
  "createStudent
     (demo_storage\<lparr>users := [(1, demo_admin), (7, demo_alice\<lparr>role := Some ''student''\<rparr>)]\<rparr>)
     demo_insert_student =
   (demo_storage\<lparr>users := [(1, demo_admin), (7, demo_alice\<lparr>role := Some ''student''\<rparr>)],
      currentStudentId := 2,
      students := [(1, \<lparr>userId = 7, studentId = ''ST54321'', grade = ''Grade 9'',
                         dateEnrolled = 5500, status = ''active'', parentName = Some ''Lorina'',
                         parentEmail = None, parentPhone = None, address = None,
                         id_student = 1\<rparr>)]\<rparr>,
    \<lparr>userId = 7, studentId = ''ST54321'', grade = ''Grade 9'',
     dateEnrolled = 5500, status = ''active'', parentName = Some ''Lorina'',
     parentEmail = None, parentPhone = None, address = None, id_student = 1\<rparr>)"
  by (simp add: createStudent_def demo_storage_def demo_insert_student_def Let_def)

lemma demo_student_owner:
  "userId demo_insert_student = id_user (demo_alice\<lparr>role := Some ''student''\<rparr>)"
  by (simp add: demo_insert_student_def demo_alice_def)

lemma demo_ghost:
  "sessions demo_state ''sid-ghost'' = Some \<lparr>principalUserId = 99, expiry = 90000000\<rparr>"
  "getUser (store demo_state) (principalUserId \<lparr>principalUserId = 99, expiry = 90000000\<rparr>) = None"
  by (simp_all add: demo_state_def demo_storage_def getUser_def)

lemma demo_lookup_duplicate:
  "getUserByUsername (store demo_state) (username (demo_register_body\<lparr>username := ''alice''\<rparr>)) =
     Some demo_alice"
  by (simp add: demo_lookup_alice)

lemma demo_admin_session:
  "resolveSession demo_state ''sid-admin'' (now demo_env) = Some demo_admin_user"
  by (simp add: resolveSession_def demo_state_def demo_env_def deserializeUser_def getUser_def
      demo_storage_def demo_admin_def demo_admin_user_def)

lemma demo_admin_passes:
  "isAuthenticated (Some demo_admin_user) = None" "hasRole [''admin''] (Some demo_admin_user) = None"
  by (simp_all add: isAuthenticated_def hasRole_def demo_roles)

lemma demo_postUsers_lookup:
  "getUserByUsername (store (fst (postUsers demo_env demo_state ''sid-admin'' demo_body))) ''bob'' =
     Some \<lparr>username = ''bob'', password = ''secret'', firstName = ''Bob'', lastName = ''Builder'',
           email = ''bob@example.org'', role = Some ''teacher'', avatarUrl = None, otherKeys = [],
           id_user = 8, createdAt = 5000\<rparr>"
  by (simp add: postUsers_def demo_admin_session demo_admin_passes Let_def createUser_def
      createActivity_def getUserByUsername_def split_beta validateBody_def)
     (simp add: demo_state_def demo_storage_def demo_body_def demo_admin_def demo_alice_def demo_env_def)


lemma demo_register_lookup:
  "getUserByUsername
     (store (fst (register demo_scrypt demo_env demo_state ''sid-new'' demo_register_body))) ''bob'' =
     Some \<lparr>username = ''bob'', password = hashPassword demo_scrypt demo_entropy' ''secret'',
           firstName = ''Bob'', lastName = ''Builder'',
           email = ''bob@example.org'', role = Some ''student'', avatarUrl = None,
           otherKeys = [(''parentName'', JStr ''Wendy'')], id_user = 8, createdAt = 5000\<rparr>"
proof -
  have "getUserByUsername (store demo_state) (username demo_register_body) = None"
    by (simp add: demo_register_body_def demo_lookup_bob)
  then show ?thesis
    by (simp add: register_def Let_def createUser_def createStudent_def createActivity_def
        createSession_def getUserByUsername_def split_beta record_defs body_keys_def
        present_key_def)
       (simp add: demo_state_def demo_storage_def demo_register_body_def demo_admin_def
        demo_alice_def demo_env_def)
qed

section \<open>The claims\<close>

subsection \<open>C1\<close>

text \<open>
  C1. For every password \<open>p\<close>, verifying \<open>p\<close> against the digest produced by hashing \<open>p\<close>
  succeeds: \<open>comparePasswords(p, hashPassword(p))\<close> returns true, whatever bytes
  \<open>randomBytes\<close> drew for the salt and whatever the key-derivation function computes.
\<close>

theorem C1_hash_verify_roundtrip:
  "comparePasswords scrypt p (hashPassword scrypt e p) = Inr True"
  by (rule compare_own_digest)

subsection \<open>C2\<close>

text \<open>
  C2, at a concrete request. The specification says that every write of a user record
  stores the salted digest, never the plaintext. An administrator posts a new user
  \<open>bob\<close> with password \<open>secret\<close> to \<open>POST /api/users\<close>: the stored password is the
  plaintext \<open>secret\<close>. The same user sent to \<open>POST /api/register\<close> is stored with
  \<open>hashPassword\<close> of the password. A later login of the user the administrator created
  cannot verify: \<open>comparePasswords\<close> throws on the stored plaintext, which has no
  \<open>.\<close>, and the route hands the \<open>TypeError\<close> to \<open>next\<close>.
\<close>

theorem C2_admin_route_stores_plaintext:
  "map_option password
     (getUserByUsername (store (fst (postUsers demo_env demo_state ''sid-admin'' demo_body))) ''bob'') =
     Some ''secret'' \<and>
   map_option password
     (getUserByUsername
        (store (fst (register demo_scrypt demo_env demo_state ''sid-new'' demo_register_body))) ''bob'') =
     Some (hashPassword demo_scrypt demo_entropy' ''secret'') \<and>
   snd (login demo_scrypt demo_env (fst (postUsers demo_env demo_state ''sid-admin'' demo_body))
          ''sid-bob'' ''bob'' ''secret'') = Next TypeError"
  by (simp add: demo_postUsers_lookup demo_register_lookup login_def authenticate_def
      localStrategy_def compare_no_delimiter)

subsection \<open>C3\<close>

text \<open>
  C3, as the specification states it: for a malformed digest \<open>comparePasswords\<close> returns
  false and never throws. The code throws: a digest with no \<open>.\<close> leaves the salt
  \<open>undefined\<close>, which \<open>scrypt\<close> rejects with a \<open>TypeError\<close>, and a hash of the wrong
  length makes \<open>timingSafeEqual\<close> throw a \<open>RangeError\<close>.
\<close>

theorem C3_malformed_digest_counterexample:
  "comparePasswords demo_scrypt ''secret'' ''abc'' = Inl TypeError \<and>
   comparePasswords demo_scrypt ''secret'' ''abcd.00'' = Inl RangeError"
  by (simp add: comparePasswords_def scryptAsync_def timingSafeEqual_def hex_val_def
      demo_scrypt_length)

text \<open>
  C3, amended. With a key-derivation function that returns the 64 bytes it is asked for:
  a digest with no \<open>.\<close> makes \<open>comparePasswords\<close> throw a \<open>TypeError\<close>; a digest whose first
  piece does not decode to exactly 64 bytes makes it throw a \<open>RangeError\<close>; and it returns
  a boolean exactly in the remaining case, the comparison of the decoded first piece with
  the key derived from the second piece.
\<close>

theorem C3_malformed_digest_throws:
  assumes "\<forall>p s. length (scrypt p s 64) = 64"
  shows "(CHR ''.'' \<notin> set d \<longrightarrow> comparePasswords scrypt p d = Inl TypeError) \<and>
         (split CHR ''.'' d = h # s # rest \<and> length (fromHex h) \<noteq> 64 \<longrightarrow>
            comparePasswords scrypt p d = Inl RangeError) \<and>
         (split CHR ''.'' d = h # s # rest \<and> length (fromHex h) = 64 \<longrightarrow>
            comparePasswords scrypt p d = Inr (fromHex h = scrypt p s 64))"
  using assms by (simp add: compare_no_delimiter compare_two_pieces)

theorem C3_malformed_digest_witness:
  "(\<forall>p s. length (demo_scrypt p s 64) = 64) \<and>
   CHR ''.'' \<notin> set ''abc'' \<and>
   comparePasswords demo_scrypt ''secret'' ''abc'' = Inl TypeError \<and>
   split CHR ''.'' ''abcd.00'' = [''abcd'', ''00''] \<and> length (fromHex ''abcd'') \<noteq> 64 \<and>
   comparePasswords demo_scrypt ''secret'' ''abcd.00'' = Inl RangeError \<and>
   split CHR ''.'' (hashPassword demo_scrypt demo_entropy ''pw'') =
     [toHex (demo_scrypt ''pw'' (toHex (randomBytes 16 demo_entropy)) 64),
      toHex (randomBytes 16 demo_entropy)] \<and>
   length (fromHex (toHex (demo_scrypt ''pw'' (toHex (randomBytes 16 demo_entropy)) 64))) = 64 \<and>
   comparePasswords demo_scrypt ''secret'' (hashPassword demo_scrypt demo_entropy ''pw'') =
     Inr (fromHex (toHex (demo_scrypt ''pw'' (toHex (randomBytes 16 demo_entropy)) 64)) =
          demo_scrypt ''secret'' (toHex (randomBytes 16 demo_entropy)) 64)"
proof -
  have len: "\<forall>p s. length (demo_scrypt p s 64) = 64"
    by (simp add: demo_scrypt_length)
  have s1: "split CHR ''.'' ''abcd.00'' = [''abcd'', ''00'']"
    by simp
  have l1: "length (fromHex ''abcd'') \<noteq> 64"
    by (simp add: hex_val_def)
  note s2 = split_hashPassword [of demo_scrypt demo_entropy "''pw''"]
  have l2: "length (fromHex (toHex (demo_scrypt ''pw'' (toHex (randomBytes 16 demo_entropy)) 64))) = 64"
    by (simp add: fromHex_toHex demo_scrypt_length)
  from C3_malformed_digest_throws [where scrypt = demo_scrypt and d = "''abc''" and p = "''secret''"] len
  have a: "comparePasswords demo_scrypt ''secret'' ''abc'' = Inl TypeError"
    by simp
  from C3_malformed_digest_throws [where scrypt = demo_scrypt and d = "''abcd.00''"
      and h = "''abcd''" and s = "''00''" and rest = "[]" and p = "''secret''"] len s1 l1
  have b: "comparePasswords demo_scrypt ''secret'' ''abcd.00'' = Inl RangeError"
    by simp
  from C3_malformed_digest_throws [where scrypt = demo_scrypt
      and d = "hashPassword demo_scrypt demo_entropy ''pw''"
      and h = "toHex (demo_scrypt ''pw'' (toHex (randomBytes 16 demo_entropy)) 64)"
      and s = "toHex (randomBytes 16 demo_entropy)" and rest = "[]" and p = "''secret''"] len s2 l2
  have c: "comparePasswords demo_scrypt ''secret'' (hashPassword demo_scrypt demo_entropy ''pw'') =
     Inr (fromHex (toHex (demo_scrypt ''pw'' (toHex (randomBytes 16 demo_entropy)) 64)) =
          demo_scrypt ''secret'' (toHex (randomBytes 16 demo_entropy)) 64)"
    by simp
  from len s1 l1 s2 l2 a b c show ?thesis by simp
qed

subsection \<open>C4\<close>




subsection \<open>C5\<close>

text \<open>
  C5. A request guarded by \<open>hasRole(roles)\<close>: without a signed-in user it is answered 401,
  whatever the roles are (and \<open>isAuthenticated\<close>, which precedes it on every route, answers
  the same); with a user whose role is not among \<open>roles\<close> it is answered 403 Forbidden;
  with a user whose role is among \<open>roles\<close> the guard calls \<open>next()\<close>. In particular
  \<open>hasRole(["admin"])\<close> answers 403 to a teacher and lets an admin through.
\<close>

theorem C5_requireRole:
  "isAuthenticated None = Some (Json 401 (message ''Not authenticated'')) \<and>
   hasRole roles None = Some (Json 401 (message ''Not authenticated'')) \<and>
   (role u \<notin> Some ` set roles \<longrightarrow>
      hasRole roles (Some u) = Some (Json 403 (message ''Forbidden: insufficient permissions''))) \<and>
   (role u \<in> Some ` set roles \<longrightarrow> hasRole roles (Some u) = None) \<and>
   (role u = Some ''teacher'' \<longrightarrow>
      hasRole [''admin''] (Some u) = Some (Json 403 (message ''Forbidden: insufficient permissions''))) \<and>
   (role u = Some ''admin'' \<longrightarrow> hasRole [''admin''] (Some u) = None)"
  by (auto simp: isAuthenticated_def hasRole_def split: option.splits)

theorem C5_requireRole_witness:
  "role demo_alice_user \<notin> Some ` set [''admin''] \<and>
   role demo_alice_user = Some ''teacher'' \<and>
   hasRole [''admin''] (Some demo_alice_user) =
     Some (Json 403 (message ''Forbidden: insufficient permissions'')) \<and>
   role demo_admin_user \<in> Some ` set [''admin''] \<and>
   role demo_admin_user = Some ''admin'' \<and>
   hasRole [''admin''] (Some demo_admin_user) = None \<and>
   hasRole [''admin''] None = Some (Json 401 (message ''Not authenticated''))"
  using C5_requireRole [of "[''admin'']" demo_alice_user]
    C5_requireRole [of "[''admin'']" demo_admin_user] demo_roles
  by simp

subsection \<open>C6\<close>

text \<open>
  C6. A session is created for a user at time \<open>t0\<close>; afterwards the stored user is updated
  with a patch that sets the role to \<open>r\<close>. \<open>deserializeUser\<close> on the id the session keeps,
  and with it resolving the session while it is live, returns the updated user record,
  with role \<open>r\<close> and the student record looked up again, not the principal that was
  signed in. When, after that, a student record is created for this user, who had none,
  the next resolution of the same session carries the new student record if the role is
  \<open>student\<close>, and no student record otherwise.
\<close>

theorem C6_session_resolves_fresh_user:
  assumes upd: "updateUser (store (createSession s sid p t0)) (id_user p) patch = (st1, Some u2)"
    and rp: "role_patch patch = Some r"
    and live: "t < t0 + maxAge"
  shows "deserializeUser st1 (serializeUser p) =
           Some (user.extend u2 (express_user.fields
             (if r = ''student'' then getStudentByUserId st1 (id_user u2) else None))) \<and>
         resolveSession ((createSession s sid p t0)\<lparr>store := st1\<rparr>) sid t =
           Some (user.extend u2 (express_user.fields
             (if r = ''student'' then getStudentByUserId st1 (id_user u2) else None))) \<and>
         role u2 = Some r \<and>
         (getStudentByUserId st1 (id_user u2) = None \<and>
          createStudent st1 ins = (st2, stu) \<and> userId ins = id_user u2 \<longrightarrow>
            resolveSession ((createSession s sid p t0)\<lparr>store := st1\<rparr>) sid t =
              Some (user.extend u2 (express_user.fields None)) \<and>
            deserializeUser st2 (serializeUser p) =
              Some (user.extend u2 (express_user.fields
                (if r = ''student'' then Some stu else None))) \<and>
            resolveSession ((createSession s sid p t0)\<lparr>store := st2\<rparr>) sid t =
              Some (user.extend u2 (express_user.fields
                (if r = ''student'' then Some stu else None))))"
proof -
  have g: "getUser st1 (id_user p) = Some u2"
    using upd by (rule getUser_updateUser)
  have r: "role u2 = Some r"
    using upd rp by (rule role_updateUser)
  have d: "deserializeUser st1 (serializeUser p) =
           Some (user.extend u2 (express_user.fields
             (if r = ''student'' then getStudentByUserId st1 (id_user u2) else None)))"
    using g r by (simp add: serializeUser_def deserializeUser_def)
  have res: "resolveSession ((createSession s sid p t0)\<lparr>store := st'\<rparr>) sid t =
          deserializeUser st' (serializeUser p)" for st'
    using live by (simp add: resolveSession_def createSession_def)
  have later: "deserializeUser st2 (serializeUser p) =
      Some (user.extend u2 (express_user.fields (if r = ''student'' then Some stu else None)))"
    if none: "getStudentByUserId st1 (id_user u2) = None"
      and cs: "createStudent st1 ins = (st2, stu)"
      and own: "userId ins = id_user u2"
  proof -
    have "getUser st2 (id_user p) = Some u2"
      using g getUser_createStudent [OF cs] by simp
    moreover have "getStudentByUserId st2 (id_user u2) = Some stu"
      using none cs own by (rule getStudentByUserId_createStudent)
    ultimately show ?thesis
      using r by (simp add: serializeUser_def deserializeUser_def)
  qed
  have before: "deserializeUser st1 (serializeUser p) =
      Some (user.extend u2 (express_user.fields None))"
    if "getStudentByUserId st1 (id_user u2) = None"
    using d that by simp
  show ?thesis
    using d r later before by (simp add: res)
qed

theorem C6_session_resolves_fresh_user_witness:
  "updateUser (store (createSession demo_state ''sid-new'' demo_alice_user 5000))
     (id_user demo_alice_user) demo_patch =
   (demo_storage\<lparr>users := [(1, demo_admin), (7, demo_alice\<lparr>role := Some ''student''\<rparr>)]\<rparr>,
    Some (demo_alice\<lparr>role := Some ''student''\<rparr>)) \<and>
   role_patch demo_patch = Some ''student'' \<and>
   (6000 :: nat) < 5000 + maxAge \<and>
   role demo_alice_user = Some ''teacher'' \<and>
   studentInfo demo_alice_user = None \<and>
   getStudentByUserId
     (demo_storage\<lparr>users := [(1, demo_admin), (7, demo_alice\<lparr>role := Some ''student''\<rparr>)]\<rparr>)
     (id_user (demo_alice\<lparr>role := Some ''student''\<rparr>)) = None \<and>
   createStudent
     (demo_storage\<lparr>users := [(1, demo_admin), (7, demo_alice\<lparr>role := Some ''student''\<rparr>)]\<rparr>)
     demo_insert_student =
   (demo_storage\<lparr>users := [(1, demo_admin), (7, demo_alice\<lparr>role := Some ''student''\<rparr>)],
      currentStudentId := 2,
      students := [(1, \<lparr>userId = 7, studentId = ''ST54321'', grade = ''Grade 9'',
                         dateEnrolled = 5500, status = ''active'', parentName = Some ''Lorina'',
                         parentEmail = None, parentPhone = None, address = None,
                         id_student = 1\<rparr>)]\<rparr>,
    \<lparr>userId = 7, studentId = ''ST54321'', grade = ''Grade 9'',
     dateEnrolled = 5500, status = ''active'', parentName = Some ''Lorina'',
     parentEmail = None, parentPhone = None, address = None, id_student = 1\<rparr>) \<and>
   userId demo_insert_student = id_user (demo_alice\<lparr>role := Some ''student''\<rparr>) \<and>
   resolveSession ((createSession demo_state ''sid-new'' demo_alice_user 5000)
       \<lparr>store := demo_storage\<lparr>users := [(1, demo_admin), (7, demo_alice\<lparr>role := Some ''student''\<rparr>)]\<rparr>\<rparr>)
     ''sid-new'' 6000 =
     Some (user.extend (demo_alice\<lparr>role := Some ''student''\<rparr>) (express_user.fields None)) \<and>
   role (demo_alice\<lparr>role := Some ''student''\<rparr>) = Some ''student'' \<and>
   resolveSession ((createSession demo_state ''sid-new'' demo_alice_user 5000)
       \<lparr>store := demo_storage\<lparr>users := [(1, demo_admin), (7, demo_alice\<lparr>role := Some ''student''\<rparr>)],
          currentStudentId := 2,
          students := [(1, \<lparr>userId = 7, studentId = ''ST54321'', grade = ''Grade 9'',
                         dateEnrolled = 5500, status = ''active'', parentName = Some ''Lorina'',
                         parentEmail = None, parentPhone = None, address = None,
                         id_student = 1\<rparr>)]\<rparr>\<rparr>)
     ''sid-new'' 6000 =
     Some (user.extend (demo_alice\<lparr>role := Some ''student''\<rparr>) (express_user.fields
       (Some \<lparr>userId = 7, studentId = ''ST54321'', grade = ''Grade 9'',
              dateEnrolled = 5500, status = ''active'', parentName = Some ''Lorina'',
              parentEmail = None, parentPhone = None, address = None, id_student = 1\<rparr>)))"
proof -
  have rp: "role_patch demo_patch = Some ''student''"
    by (simp add: demo_patch_def)
  have live: "(6000 :: nat) < 5000 + maxAge"
    by (simp add: maxAge_def)
  have si: "studentInfo demo_alice_user = None"
    by (simp add: demo_alice_user_def record_defs)
  note inst = C6_session_resolves_fresh_user [OF demo_update_alice rp live,
      where ins = demo_insert_student]
  from inst demo_no_student demo_create_student demo_student_owner
    demo_update_alice rp live demo_roles(1) si
  show ?thesis by simp
qed

subsection \<open>C7\<close>

text \<open>
  C7. A session whose stored user id has no user in the user store is treated as not
  signed in: \<open>deserializeUser\<close> reports no user, the session resolves to none, the
  \<open>isAuthenticated\<close> guard answers 401 and so does \<open>GET /api/user\<close>.
\<close>

theorem C7_dangling_session_unauthenticated:
  assumes "sessions s sid = Some se"
    and "getUser (store s) (principalUserId se) = None"
  shows "deserializeUser (store s) (principalUserId se) = None \<and>
         resolveSession s sid t = None \<and>
         isAuthenticated (resolveSession s sid t) = Some (Json 401 (message ''Not authenticated'')) \<and>
         currentUser ev s sid = SendStatus 401"
  using assms
  by (simp add: deserializeUser_def resolveSession_def isAuthenticated_def currentUser_def)

theorem C7_dangling_session_witness:
  "sessions demo_state ''sid-ghost'' = Some \<lparr>principalUserId = 99, expiry = 90000000\<rparr> \<and>
   getUser (store demo_state) 99 = None \<and>
   deserializeUser (store demo_state) 99 = None \<and>
   resolveSession demo_state ''sid-ghost'' 5000 = None \<and>
   isAuthenticated (resolveSession demo_state ''sid-ghost'' 5000) =
     Some (Json 401 (message ''Not authenticated'')) \<and>
   currentUser demo_env demo_state ''sid-ghost'' = SendStatus 401"
  using C7_dangling_session_unauthenticated [OF demo_ghost, of 5000 demo_env] demo_ghost
  by (simp add: isAuthenticated_def)

subsection \<open>C8\<close>

text \<open>
  C8. Two invocations of \<open>hashPassword\<close> on the same password each draw a salt of 16
  bytes; when the two salts differ, the two digests differ, and both digests verify
  against the password.
\<close>

theorem C8_fresh_salts_distinct_digests:
  assumes "randomBytes 16 e1 \<noteq> randomBytes 16 e2"
  shows "length (randomBytes 16 e1) = 16 \<and> length (randomBytes 16 e2) = 16 \<and>
         hashPassword scrypt e1 p \<noteq> hashPassword scrypt e2 p \<and>
         comparePasswords scrypt p (hashPassword scrypt e1 p) = Inr True \<and>
         comparePasswords scrypt p (hashPassword scrypt e2 p) = Inr True"
  using assms by (simp add: digest_salt_differs compare_own_digest randomBytes_def)

theorem C8_fresh_salts_witness:
  "randomBytes 16 demo_entropy \<noteq> randomBytes 16 demo_entropy' \<and>
   length (randomBytes 16 demo_entropy) = 16 \<and> length (randomBytes 16 demo_entropy') = 16 \<and>
   hashPassword demo_scrypt demo_entropy ''correct-pw'' \<noteq>
     hashPassword demo_scrypt demo_entropy' ''correct-pw'' \<and>
   comparePasswords demo_scrypt ''correct-pw''
     (hashPassword demo_scrypt demo_entropy ''correct-pw'') = Inr True \<and>
   comparePasswords demo_scrypt ''correct-pw''
     (hashPassword demo_scrypt demo_entropy' ''correct-pw'') = Inr True"
proof -
  have ne: "randomBytes 16 demo_entropy \<noteq> randomBytes 16 demo_entropy'"
    by (simp add: randomBytes_def demo_entropy_def demo_entropy'_def upt_rec)
  from C8_fresh_salts_distinct_digests [OF ne, of demo_scrypt "''correct-pw''"] ne
  show ?thesis by simp
qed

subsection \<open>C9\<close>

text \<open>
  C9. Once a session is destroyed it resolves to none, at every later time and whatever
  the user store holds then; destroying it again changes nothing; destroying a session
  that does not exist changes nothing; and \<open>POST /api/logout\<close> answers 200 whether or not
  the session exists, leaving a state in which the session resolves to none.
\<close>

theorem C9_destroyed_session_never_resolves:
  "resolveSession (destroySession s sid) sid t = None \<and>
   resolveSession ((destroySession s sid)\<lparr>store := st'\<rparr>) sid t = None \<and>
   destroySession (destroySession s sid) sid = destroySession s sid \<and>
   (sessions s sid = None \<longrightarrow>
      destroySession s sid = s \<and> logout ev s sid = (s, SendStatus 200)) \<and>
   logout ev (destroySession s sid) sid = (destroySession s sid, SendStatus 200) \<and>
   snd (logout ev s sid) = SendStatus 200 \<and>
   resolveSession (fst (logout ev s sid)) sid t = None"
  by (simp add: resolveSession_def destroySession_def logout_def Let_def fun_upd_idem)

theorem C9_destroyed_session_witness:
  "sessions demo_state ''sid-none'' = None \<and>
   destroySession demo_state ''sid-none'' = demo_state \<and>
   logout demo_env demo_state ''sid-none'' = (demo_state, SendStatus 200) \<and>
   resolveSession (destroySession demo_state ''sid-alice'') ''sid-alice'' 5000 = None \<and>
   resolveSession (fst (logout demo_env demo_state ''sid-alice'')) ''sid-alice'' 5000 = None"
proof -
  have none: "sessions demo_state ''sid-none'' = None"
    by (simp add: demo_state_def)
  from C9_destroyed_session_never_resolves [of demo_state "''sid-none''" 5000 demo_storage demo_env]
    C9_destroyed_session_never_resolves [of demo_state "''sid-alice''" 5000 demo_storage demo_env] none
  show ?thesis by simp
qed

subsection \<open>C10\<close>

text \<open>
  C10. A registration whose username is already taken is answered 400 and leaves the whole
  state as it was: no user, no student record, no activity and no session is added.
\<close>

theorem C10_register_duplicate_username:
  assumes "getUserByUsername (store s) (username body) = Some existing"
  shows "register scrypt ev s sid body = (s, Json 400 (message ''Username already exists''))"
  using assms by (simp add: register_def)

theorem C10_register_duplicate_witness:
  "getUserByUsername (store demo_state) (username (demo_register_body\<lparr>username := ''alice''\<rparr>)) =
     Some demo_alice \<and>
   register demo_scrypt demo_env demo_state ''sid-new'' (demo_register_body\<lparr>username := ''alice''\<rparr>) =
     (demo_state, Json 400 (message ''Username already exists''))"
  using C10_register_duplicate_username [OF demo_lookup_duplicate, of demo_scrypt demo_env "''sid-new''"]
    demo_lookup_duplicate
  by simp

end
